theory Spec2Isabelle
  imports Complex_Main
begin

section \<open>The configuration type of \<^verbatim>\<open>useWeather.ts\<close>\<close>

text \<open>
  The source declares one union type and one interface (lines 9 to 152). The string
  literal unions become datatypes, an optional field \<^verbatim>\<open>f?: T\<close> becomes a
  \<open>T option\<close> (\<open>None\<close> is the absent field), and a TypeScript \<^verbatim>\<open>number\<close>
  is modelled as a \<open>real\<close> (NaN and the infinities are left out).
\<close>

datatype OpenMeteoWeatherModel =
  auto | ECMWF_IFS | GFS | GEM | ICON | METEO_FRANCE | FMI_HIRLAM | JMA_SEAM | METNO_NORDIC

datatype temperature_unit = celsius | fahrenheit

datatype windspeed_unit = kmh | mph | ms | kn

datatype precipitation_unit = mm | inch

datatype timeformat = iso8601 | unixtime

datatype cell_selection = nearest | land

record OpenMeteoForecastConfig =
  latitude :: real
  longitude :: real
  hourly :: "string option"
  daily :: "string option"
  current_weather :: "bool option"
  temperature_unit :: "temperature_unit option"
  windspeed_unit :: "windspeed_unit option"
  precipitation_unit :: "precipitation_unit option"
  timezone :: "string option"
  timeformat :: "timeformat option"
  past_days :: "real option"
  forecast_days :: "real option"
  forecast_hours :: "real option"
  forecast_minutes :: "real option"
  start_date :: "string option"
  end_date :: "string option"
  start_hour :: "string option"
  end_hour :: "string option"
  models :: "OpenMeteoWeatherModel option"
  cell_selection :: "cell_selection option"

text \<open>
  A JavaScript value of this type is a reference to an object. The hook receives the
  reference, its closure keeps the reference, and React compares the dependencies of
  \<^verbatim>\<open>useCallback\<close> with \<^verbatim>\<open>Object.is\<close>, which on objects is identity of
  reference. The fields an object holds are in the heap (a field of \<open>env\<close> below), where
  the caller may change them at any time; two objects may hold the same fields.
\<close>

type_synonym config_ref = nat

definition object_is :: "config_ref \<Rightarrow> config_ref \<Rightarrow> bool" where
  "object_is a b = (a = b)"

text \<open>
  The documented ranges of the interface (the \<^verbatim>\<open>@range\<close> tags of lines 29 and 35,
  and the sentence of line 23 on \<^verbatim>\<open>hourly\<close>, \<^verbatim>\<open>daily\<close> and
  \<^verbatim>\<open>current_weather\<close>). They are comments in the source: no code reads them.
\<close>

definition out_of_range :: "OpenMeteoForecastConfig \<Rightarrow> bool" where
  "out_of_range c =
     (latitude c < - 90 \<or> 90 < latitude c \<or> longitude c < - 180 \<or> 180 < longitude c)"

definition no_granularity :: "OpenMeteoForecastConfig \<Rightarrow> bool" where
  "no_granularity c = (hourly c = None \<and> daily c = None \<and> current_weather c = None)"

definition invalid_config :: "OpenMeteoForecastConfig \<Rightarrow> bool" where
  "invalid_config c = (out_of_range c \<or> no_granularity c)"

section \<open>Results, errors and the state the hook runs in\<close>

text \<open>
  \<^verbatim>\<open>WeatherApiResponse\<close> is an opaque payload of the \<^verbatim>\<open>openmeteo\<close> package.
  The state of line 193 holds \<^verbatim>\<open>WeatherApiResponse[] | undefined\<close>; \<open>None\<close> is
  \<^verbatim>\<open>undefined\<close>.
\<close>

type_synonym WeatherApiResponse = string

type_synonym response = "WeatherApiResponse list option"

text \<open>
  The errors a call can end in. The source has no \<^verbatim>\<open>throw\<close>; the names are those
  of the specification's taxonomy, and \<open>FetchError\<close> is a rejection of the promise of
  \<^verbatim>\<open>fetchWeatherApi\<close>.
\<close>

datatype error = InvalidConfigError | CacheIOError | FetchError string

text \<open>
  The closure of lines 195 to 198 captures \<^verbatim>\<open>url\<close> and \<^verbatim>\<open>config\<close>, the
  latter by reference; it is represented by what it captures. Its dependency array is
  \<^verbatim>\<open>[url, config]\<close>.
\<close>

datatype callback = FetchCallback string config_ref

type_synonym deps = "string \<times> config_ref"

text \<open>
  React keeps the cells of a component instance between its renders: one for
  \<^verbatim>\<open>useState\<close> (\<open>None\<close> before the first render) and one for
  \<^verbatim>\<open>useCallback\<close>.
\<close>

record hooks =
  state_cell :: "response option"
  memo_cell :: "(callback \<times> deps) option"

text \<open>
  What is shared by every component of the page: the calls of \<^verbatim>\<open>fetchWeatherApi\<close>
  made so far, the browser's local storage, and the heap of configuration objects. A call
  is logged with the url, the reference passed and the fields the object held when the
  call was made. A reference always denotes an object, so the heap is a total function.
\<close>

record env =
  fetch_log :: "(string \<times> config_ref \<times> OpenMeteoForecastConfig) list"
  local_storage :: "string \<rightharpoonup> string"
  heap :: "config_ref \<Rightarrow> OpenMeteoForecastConfig"

text \<open>The caller writes new fields into the object behind a reference.\<close>

definition assign :: "config_ref \<Rightarrow> OpenMeteoForecastConfig \<Rightarrow> env \<Rightarrow> env" where
  "assign a c e = e\<lparr>heap := (heap e)(a := c)\<rparr>"

record hook_result =
  response :: response

definition fresh_hooks :: hooks where
  "fresh_hooks = \<lparr>state_cell = None, memo_cell = None\<rparr>"

section \<open>The two React primitives the hook calls\<close>

text \<open>
  \<^verbatim>\<open>useState<T>()\<close> with no argument: the first render initialises the cell with
  \<^verbatim>\<open>undefined\<close>; every render returns the cell's current value. The setter it
  returns is \<open>setResponse\<close>.
\<close>

definition useState :: "hooks \<Rightarrow> response \<times> hooks" where
  "useState h =
     (case state_cell h of
        None \<Rightarrow> (None, h\<lparr>state_cell := Some None\<rparr>)
      | Some v \<Rightarrow> (v, h))"

definition setResponse :: "WeatherApiResponse list \<Rightarrow> hooks \<Rightarrow> hooks" where
  "setResponse result h = h\<lparr>state_cell := Some (Some result)\<rparr>"

text \<open>
  \<^verbatim>\<open>useCallback(fn, deps)\<close> returns the memoised function when every dependency is
  \<^verbatim>\<open>Object.is\<close>-equal to the one stored, and stores and returns \<^verbatim>\<open>fn\<close>
  otherwise. It never calls \<^verbatim>\<open>fn\<close>. The first dependency is a string (compared by
  value), the second an object (compared by identity).
\<close>

definition deps_equal :: "deps \<Rightarrow> deps \<Rightarrow> bool" where
  "deps_equal d d' = (fst d = fst d' \<and> object_is (snd d) (snd d'))"

definition useCallback :: "callback \<Rightarrow> deps \<Rightarrow> hooks \<Rightarrow> callback \<times> hooks" where
  "useCallback fn ds h =
     (case memo_cell h of
        None \<Rightarrow> (fn, h\<lparr>memo_cell := Some (fn, ds)\<rparr>)
      | Some (fn0, ds0) \<Rightarrow>
          if deps_equal ds0 ds then (fn0, h) else (fn, h\<lparr>memo_cell := Some (fn, ds)\<rparr>))"

section \<open>The callback of lines 195 to 198\<close>

text \<open>
  \<^verbatim>\<open>async () => { const result = await fetchWeatherApi(url, config); setResponse(result); }\<close>

  An invocation runs in two steps. \<open>callback_call\<close> is the part before the
  \<^verbatim>\<open>await\<close>: \<^verbatim>\<open>fetchWeatherApi\<close> is called with the captured arguments, and
  reads the object behind the reference as it is at that moment; the log records both.
  \<open>callback_resume\<close> is the part after it, run when the promise
  settles with an outcome the network decides: a result is stored with
  \<open>setResponse\<close> and the callback's own promise fulfils; a rejection is rethrown by
  \<^verbatim>\<open>await\<close>, nothing catches it, and the callback's own promise rejects with it.
\<close>

definition callback_call :: "callback \<Rightarrow> env \<Rightarrow> env" where
  "callback_call cb e =
     (case cb of FetchCallback url config \<Rightarrow>
        e\<lparr>fetch_log := fetch_log e @ [(url, config, heap e config)]\<rparr>)"

definition callback_resume ::
  "error + WeatherApiResponse list \<Rightarrow> hooks \<Rightarrow> (error + unit) \<times> hooks" where
  "callback_resume outcome h =
     (case outcome of
        Inr result \<Rightarrow> (Inr (), setResponse result h)
      | Inl err \<Rightarrow> (Inl err, h))"

definition callback_run ::
  "callback \<Rightarrow> error + WeatherApiResponse list \<Rightarrow> hooks \<times> env \<Rightarrow> (error + unit) \<times> hooks \<times> env" where
  "callback_run cb outcome w =
     (case w of (h, e) \<Rightarrow>
        (case callback_resume outcome h of (r, h') \<Rightarrow> (r, h', callback_call cb e)))"

section \<open>The hook\<close>

text \<open>
  Lines 192 to 201. The value of \<^verbatim>\<open>useCallback\<close> is discarded, the setter is used
  only inside the callback, and the body has no \<^verbatim>\<open>throw\<close>: every path ends in the
  \<^verbatim>\<open>return\<close> of line 200.
\<close>

definition url :: string where
  "url = ''https://api.open-meteo.com/v1/forecast''"

definition useWeather ::
  "config_ref \<Rightarrow> hooks \<times> env \<Rightarrow> error + (hook_result \<times> hooks \<times> env)" where
  "useWeather config w =
     (case w of (h, e) \<Rightarrow>
        (case useState h of (response0, h1) \<Rightarrow>
           (case useCallback (FetchCallback url config) (url, config) h1 of (_, h2) \<Rightarrow>
              Inr (\<lparr>response = response0\<rparr>, h2, e))))"

text \<open>
  A component instance is rendered again and again, each time with the configuration
  its caller passes. The hook registers no effect and hands out neither the setter nor
  the callback, so between two renders nothing of the hook runs.
\<close>

fun renders ::
  "config_ref list \<Rightarrow> hooks \<times> env \<Rightarrow> error + (hook_result list \<times> hooks \<times> env)" where
  "renders [] w = Inr ([], w)"
| "renders (c # cs) w =
     (case useWeather c w of
        Inl err \<Rightarrow> Inl err
      | Inr (out, w') \<Rightarrow>
          (case renders cs w' of
             Inl err \<Rightarrow> Inl err
           | Inr (outs, w'') \<Rightarrow> Inr (out # outs, w'')))"

text \<open>Several component instances, each mounted once with its own fresh cells.\<close>

fun mounts :: "config_ref list \<Rightarrow> env \<Rightarrow> error + (hook_result list \<times> env)" where
  "mounts [] e = Inr ([], e)"
| "mounts (c # cs) e =
     (case useWeather c (fresh_hooks, e) of
        Inl err \<Rightarrow> Inl err
      | Inr (out, _, e') \<Rightarrow>
          (case mounts cs e' of
             Inl err \<Rightarrow> Inl err
           | Inr (outs, e'') \<Rightarrow> Inr (out # outs, e'')))"

section \<open>Invocations of the callback\<close>

text \<open>
  What a call of \<^verbatim>\<open>fetchWeatherApi\<close> by a callback is logged as in an environment:
  what the callback captured, and the fields behind the reference there.
\<close>

definition callback_args ::
  "callback \<Rightarrow> env \<Rightarrow> string \<times> config_ref \<times> OpenMeteoForecastConfig" where
  "callback_args cb e = (case cb of FetchCallback u config \<Rightarrow> (u, config, heap e config))"

text \<open>
  Several invocations of one callback that overlap in time: JavaScript runs each up to its
  \<^verbatim>\<open>await\<close> first (one call of \<^verbatim>\<open>fetchWeatherApi\<close> each), and the
  continuations later, one per settled promise, with the outcome of that promise.
\<close>

fun resumes :: "(error + WeatherApiResponse list) list \<Rightarrow> hooks \<Rightarrow> (error + unit) list \<times> hooks" where
  "resumes [] h = ([], h)"
| "resumes (outcome # outcomes) h =
     (case callback_resume outcome h of (r, h') \<Rightarrow>
        (case resumes outcomes h' of (rs, h'') \<Rightarrow> (r # rs, h'')))"

definition concurrent_invocations ::
  "callback \<Rightarrow> (error + WeatherApiResponse list) list \<Rightarrow> hooks \<times> env \<Rightarrow>
     (error + unit) list \<times> hooks \<times> env" where
  "concurrent_invocations cb outcomes w =
     (case w of (h, e) \<Rightarrow>
        (case resumes outcomes h of (rs, h') \<Rightarrow>
           (rs, h', (callback_call cb ^^ length outcomes) e)))"

text \<open>How the promise of an invocation settles, given how its fetch settled.\<close>

definition settled :: "error + WeatherApiResponse list \<Rightarrow> error + unit" where
  "settled outcome = (case outcome of Inl err \<Rightarrow> Inl err | Inr result \<Rightarrow> Inr ())"

text \<open>The state cell holds \<^verbatim>\<open>undefined\<close>, or the component is not mounted yet.\<close>

definition undefined_cell :: "hooks \<Rightarrow> bool" where
  "undefined_cell h = (state_cell h = None \<or> state_cell h = Some None)"

section \<open>Concrete configurations and environments\<close>

text \<open>
  \<^verbatim>\<open>{ latitude: 52.52, longitude: 13.405, current_weather: true }\<close>, and the
  configuration of the example in the doc comment of the hook (lines 169 to 176).
\<close>

definition scenario_config :: OpenMeteoForecastConfig where
  "scenario_config =
     \<lparr>latitude = 52.52, longitude = 13.405, hourly = None, daily = None,
      current_weather = Some True, temperature_unit = None, windspeed_unit = None,
      precipitation_unit = None, timezone = None, timeformat = None, past_days = None,
      forecast_days = None, forecast_hours = None, forecast_minutes = None,
      start_date = None, end_date = None, start_hour = None, end_hour = None,
      models = None, cell_selection = None\<rparr>"

definition readme_config :: OpenMeteoForecastConfig where
  "readme_config =
     scenario_config
       \<lparr>hourly := Some ''temperature_2m,relativehumidity_2m'',
        daily := Some ''weathercode,temperature_2m_max'',
        timezone := Some ''Europe/Berlin''\<rparr>"

text \<open>
  A heap of example objects. Objects 1 and 2 hold the same fields; object 3 is the
  configuration of the doc comment; objects 4, 5, 6, 8 and 9 are outside the documented
  ranges in different ways; objects 7 and 10 write a documented default out.
\<close>

definition example_heap :: "config_ref \<Rightarrow> OpenMeteoForecastConfig" where
  "example_heap =
     (\<lambda>_. scenario_config)
       (3 := readme_config,
        4 := scenario_config\<lparr>latitude := 100\<rparr>,
        5 := scenario_config\<lparr>longitude := 200\<rparr>,
        6 := scenario_config\<lparr>current_weather := None\<rparr>,
        7 := scenario_config\<lparr>temperature_unit := Some celsius\<rparr>,
        8 := scenario_config\<lparr>latitude := 100, longitude := 200, current_weather := None\<rparr>,
        9 := scenario_config\<lparr>latitude := - 91\<rparr>,
        10 := readme_config\<lparr>forecast_days := Some 7\<rparr>)"

text \<open>
  An environment in which nothing was fetched and nothing is stored, and one whose local
  storage already holds an entry for the first configuration.
\<close>

definition empty_env :: env where
  "empty_env = \<lparr>fetch_log = [], local_storage = Map.empty, heap = example_heap\<rparr>"

definition cached_env :: env where
  "cached_env =
     \<lparr>fetch_log = [],
      local_storage = [''latitude=52.52&longitude=13.405&current_weather=true'' \<mapsto> ''forecast''],
      heap = example_heap\<rparr>"

text \<open>The cells of a component after its first render with configuration \<open>c\<close>.\<close>

definition mounted_hooks :: "config_ref \<Rightarrow> hooks" where
  "mounted_hooks c =
     \<lparr>state_cell = Some None, memo_cell = Some (FetchCallback url c, (url, c))\<rparr>"

section \<open>The documented defaults\<close>




section \<open>Basic facts\<close>

lemma useWeather_eq:
  "useWeather c (h, e) =
     Inr (\<lparr>response = fst (useState h)\<rparr>,
          snd (useCallback (FetchCallback url c) (url, c) (snd (useState h))), e)"
  by (simp add: useWeather_def split: prod.splits)

lemma state_cell_useCallback: "state_cell (snd (useCallback fn ds h)) = state_cell h"
  by (simp add: useCallback_def split: option.splits prod.splits)

lemma state_cell_useState_undefined:
  "state_cell h = None \<or> state_cell h = Some None \<Longrightarrow>
     fst (useState h) = None \<and> state_cell (snd (useState h)) = Some None"
  by (auto simp: useState_def)

lemma useWeather_fresh:
  "useWeather c (fresh_hooks, e) = Inr (\<lparr>response = None\<rparr>, mounted_hooks c, e)"
  by (simp add: useWeather_def useState_def useCallback_def fresh_hooks_def mounted_hooks_def)

lemma useWeather_undefined_cell:
  "undefined_cell h \<Longrightarrow>
     \<exists>h'. useWeather c (h, e) = Inr (\<lparr>response = None\<rparr>, h', e) \<and> undefined_cell h'"
  using state_cell_useState_undefined [of h]
  by (simp add: useWeather_eq undefined_cell_def state_cell_useCallback)

lemma renders_undefined_cell:
  "undefined_cell h \<Longrightarrow>
     \<exists>h'. renders cs (h, e) = Inr (replicate (length cs) \<lparr>response = None\<rparr>, h', e) \<and>
          undefined_cell h'"
proof (induction cs arbitrary: h)
  case Nil
  then show ?case by simp
next
  case (Cons c cs)
  from useWeather_undefined_cell [OF Cons.prems, of c e] obtain h1 where
    step: "useWeather c (h, e) = Inr (\<lparr>response = None\<rparr>, h1, e)" and cell: "undefined_cell h1"
    by blast
  from Cons.IH [OF cell] obtain h' where
    "renders cs (h1, e) = Inr (replicate (length cs) \<lparr>response = None\<rparr>, h', e)"
    "undefined_cell h'"
    by blast
  with step show ?case by simp
qed

lemma undefined_cell_fresh: "undefined_cell fresh_hooks"
  by (simp add: undefined_cell_def fresh_hooks_def)

lemma mounts_undefined: "mounts cs e = Inr (replicate (length cs) \<lparr>response = None\<rparr>, e)"
  by (induction cs) (simp_all add: useWeather_fresh)

lemma fetch_log_callback_call:
  "fetch_log (callback_call cb e) = fetch_log e @ [callback_args cb e]"
  by (simp add: callback_call_def callback_args_def split: callback.splits)

lemma local_storage_callback_call: "local_storage (callback_call cb e) = local_storage e"
  by (simp add: callback_call_def split: callback.splits)

lemma heap_callback_call: "heap (callback_call cb e) = heap e"
  by (simp add: callback_call_def split: callback.splits)




lemma local_storage_calls: "local_storage ((callback_call cb ^^ n) e) = local_storage e"
  by (induction n) (simp_all add: local_storage_callback_call)

lemma fst_callback_resume: "fst (callback_resume outcome h) = settled outcome"
  by (simp add: callback_resume_def settled_def split: sum.splits)

lemma resumes_Cons:
  "resumes (outcome # outcomes) h =
     (fst (callback_resume outcome h) # fst (resumes outcomes (snd (callback_resume outcome h))),
      snd (resumes outcomes (snd (callback_resume outcome h))))"
  by (simp split: prod.splits)

lemma fst_resumes: "fst (resumes outcomes h) = map settled outcomes"
proof (induction outcomes arbitrary: h)
  case Nil
  show ?case by simp
next
  case (Cons outcome outcomes)
  show ?case
    unfolding resumes_Cons by (simp add: Cons.IH fst_callback_resume)
qed


lemma memo_cell_useState: "memo_cell (snd (useState h)) = memo_cell h"
  by (simp add: useState_def split: option.splits)

lemma memo_cell_useCallback:
  "memo_cell (snd (useCallback fn ds h)) =
     (case memo_cell h of
        None \<Rightarrow> Some (fn, ds)
      | Some (fn0, ds0) \<Rightarrow> if deps_equal ds0 ds then Some (fn0, ds0) else Some (fn, ds))"
  by (simp add: useCallback_def split: option.splits)

lemma useWeather_mounted:
  "useWeather c (mounted_hooks c, e) = Inr (\<lparr>response = None\<rparr>, mounted_hooks c, e)"
  by (simp add: useWeather_eq useState_def useCallback_def mounted_hooks_def deps_equal_def
      object_is_def)

lemma useWeather_memo:
  "\<exists>out h'. useWeather b (h\<lparr>memo_cell := Some (fn0, (url, a))\<rparr>, e) = Inr (out, h', e) \<and>
     memo_cell h' =
       (if a = b then Some (fn0, (url, a)) else Some (FetchCallback url b, (url, b)))"
  by (simp add: useWeather_eq memo_cell_useCallback memo_cell_useState deps_equal_def
      object_is_def)

lemma concurrent_invocations_eq:
  "concurrent_invocations cb outcomes (h, e) =
     (fst (resumes outcomes h), snd (resumes outcomes h),
      (callback_call cb ^^ length outcomes) e)"
  by (simp add: concurrent_invocations_def split: prod.splits)

lemma useWeather_after_mount:
  "\<exists>h'. useWeather b (mounted_hooks a, e) = Inr (\<lparr>response = None\<rparr>, h', e) \<and>
     memo_cell h' = Some (FetchCallback url b, (url, b))"
  by (auto simp: useWeather_eq useState_def mounted_hooks_def memo_cell_useCallback
      deps_equal_def object_is_def)

lemma callback_call_after_assign:
  "fetch_log (callback_call (FetchCallback u a) (assign a c e)) = fetch_log e @ [(u, a, c)]"
  by (simp add: callback_call_def assign_def)

section \<open>Claims about the hook as it runs\<close>

text \<open>
  C1. For every configuration passed to \<^verbatim>\<open>useWeather\<close>, the hook defines its fetch
  callback with \<^verbatim>\<open>useCallback\<close> and never invokes it: however often a component is
  rendered, and with whatever configurations, every render returns
  \<^verbatim>\<open>{ response: undefined }\<close> and the log of \<^verbatim>\<open>fetchWeatherApi\<close> calls (with
  the rest of the environment) is what it was. The first render stores the callback for
  its configuration in the memo cell, and that is all it does with it.
\<close>

theorem useWeather_never_invokes_callback:
  "(\<exists>h'. renders cs (fresh_hooks, e) =
          Inr (replicate (length cs) \<lparr>response = None\<rparr>, h', e)) \<and>
   useWeather c (fresh_hooks, e) =
     Inr (\<lparr>response = None\<rparr>,
          \<lparr>state_cell = Some None, memo_cell = Some (FetchCallback url c, (url, c))\<rparr>, e)"
proof
  from renders_undefined_cell [OF undefined_cell_fresh, of cs e]
  show "\<exists>h'. renders cs (fresh_hooks, e) =
          Inr (replicate (length cs) \<lparr>response = None\<rparr>, h', e)"
    by blast
  show "useWeather c (fresh_hooks, e) =
     Inr (\<lparr>response = None\<rparr>,
          \<lparr>state_cell = Some None, memo_cell = Some (FetchCallback url c, (url, c))\<rparr>, e)"
    by (simp add: useWeather_fresh mounted_hooks_def)
qed

theorem useWeather_never_invokes_callback_witness:
  "(\<exists>h'. renders [3, 1, 1] (fresh_hooks, empty_env) =
          Inr ([\<lparr>response = None\<rparr>, \<lparr>response = None\<rparr>, \<lparr>response = None\<rparr>], h', empty_env)) \<and>
   fetch_log empty_env = [] \<and>
   heap empty_env 3 = readme_config \<and>
   heap empty_env 1 = scenario_config"
proof -
  let ?cs = "[3, 1, 1] :: config_ref list"
  have len: "replicate (length ?cs) \<lparr>response = None\<rparr> =
      [\<lparr>response = None\<rparr>, \<lparr>response = None\<rparr>, \<lparr>response = None\<rparr>]"
    by simp
  from useWeather_never_invokes_callback [of ?cs empty_env 3]
  have "\<exists>h'. renders ?cs (fresh_hooks, empty_env) =
      Inr ([\<lparr>response = None\<rparr>, \<lparr>response = None\<rparr>, \<lparr>response = None\<rparr>], h', empty_env)"
    unfolding len by (rule conjunct1)
  moreover have "fetch_log empty_env = [] \<and> heap empty_env 3 = readme_config \<and>
      heap empty_env 1 = scenario_config"
    by (simp add: empty_env_def example_heap_def)
  ultimately show ?thesis by (rule conjI)
qed

text \<open>
  C9. An invocation of \<^verbatim>\<open>useWeather\<close> reads no store and writes none. Its result and
  the cells it leaves are the same whatever the environment (the fetch log, local storage
  and the fields of the configuration objects) holds, and the environment comes back
  unchanged. After any earlier renders of the component, with any configurations and in
  any environment, a render returns one and the same value.
\<close>

theorem useWeather_touches_no_store:
  "(\<exists>out h'. \<forall>e. useWeather c (h, e) = Inr (out, h', e)) \<and>
   (\<exists>out. \<forall>cs e. \<exists>outs h'. renders (cs @ [c]) (fresh_hooks, e) = Inr (outs @ [out], h', e))"
proof
  show "\<exists>out h'. \<forall>e. useWeather c (h, e) = Inr (out, h', e)"
    by (simp add: useWeather_eq)
  have "\<exists>outs h'. renders (cs @ [c]) (fresh_hooks, e) = Inr (outs @ [\<lparr>response = None\<rparr>], h', e)"
    for cs e
  proof -
    from renders_undefined_cell [OF undefined_cell_fresh, of "cs @ [c]" e] obtain h' where
      "renders (cs @ [c]) (fresh_hooks, e) =
         Inr (replicate (length cs) \<lparr>response = None\<rparr> @ [\<lparr>response = None\<rparr>], h', e)"
      by (auto simp: replicate_append_same)
    then show ?thesis by blast
  qed
  then show "\<exists>out. \<forall>cs e. \<exists>outs h'.
      renders (cs @ [c]) (fresh_hooks, e) = Inr (outs @ [out], h', e)"
    by blast
qed

theorem useWeather_touches_no_store_witness:
  "(\<exists>out h'. useWeather 1 (fresh_hooks, empty_env) = Inr (out, h', empty_env) \<and>
      useWeather 1 (fresh_hooks, cached_env) = Inr (out, h', cached_env)) \<and>
   (\<exists>out outs outs' h' h''.
      renders ([] @ [1]) (fresh_hooks, empty_env) = Inr (outs @ [out], h', empty_env) \<and>
      renders ([3] @ [1]) (fresh_hooks, cached_env) = Inr (outs' @ [out], h'', cached_env))"
proof -
  from useWeather_touches_no_store [of 1 fresh_hooks]
  obtain out h' out' where
    a: "\<forall>e. useWeather 1 (fresh_hooks, e) = Inr (out, h', e)" and
    b: "\<forall>cs e. \<exists>outs h'. renders (cs @ [1]) (fresh_hooks, e) = Inr (outs @ [out'], h', e)"
    by blast
  from b obtain outs h1 where
    "renders ([] @ [1]) (fresh_hooks, empty_env) = Inr (outs @ [out'], h1, empty_env)"
    by blast
  moreover from b obtain outs' h2 where
    "renders ([3] @ [1]) (fresh_hooks, cached_env) = Inr (outs' @ [out'], h2, cached_env)"
    by blast
  ultimately show ?thesis using a by blast
qed

text \<open>
  C10. For any two configurations, valid or not, and after any earlier renders of the
  component, \<^verbatim>\<open>useWeather\<close> returns normally for both, with the same value
  \<^verbatim>\<open>{ response: undefined }\<close>, and leaves the environment as it was.
\<close>

theorem useWeather_ignores_configuration:
  "\<exists>outs hs h1 h2.
     renders cs (fresh_hooks, e) = Inr (outs, hs, e) \<and>
     useWeather c1 (hs, e) = Inr (\<lparr>response = None\<rparr>, h1, e) \<and>
     useWeather c2 (hs, e) = Inr (\<lparr>response = None\<rparr>, h2, e)"
proof -
  from renders_undefined_cell [OF undefined_cell_fresh, of cs e] obtain hs where
    r: "renders cs (fresh_hooks, e) = Inr (replicate (length cs) \<lparr>response = None\<rparr>, hs, e)"
    and cell: "undefined_cell hs"
    by blast
  from useWeather_undefined_cell [OF cell, of c1 e] obtain h1 where
    "useWeather c1 (hs, e) = Inr (\<lparr>response = None\<rparr>, h1, e)" by blast
  moreover from useWeather_undefined_cell [OF cell, of c2 e] obtain h2 where
    "useWeather c2 (hs, e) = Inr (\<lparr>response = None\<rparr>, h2, e)" by blast
  ultimately show ?thesis using r by blast
qed

theorem useWeather_ignores_configuration_witness:
  "heap empty_env 8 =
     scenario_config\<lparr>latitude := 100, longitude := 200, current_weather := None\<rparr> \<and>
   invalid_config (heap empty_env 8) \<and>
   (\<exists>outs hs h1 h2.
     renders [3] (fresh_hooks, empty_env) = Inr (outs, hs, empty_env) \<and>
     useWeather 8 (hs, empty_env) = Inr (\<lparr>response = None\<rparr>, h1, empty_env) \<and>
     useWeather 3 (hs, empty_env) = Inr (\<lparr>response = None\<rparr>, h2, empty_env))"
proof -
  have "heap empty_env 8 =
     scenario_config\<lparr>latitude := 100, longitude := 200, current_weather := None\<rparr>"
    by (simp add: empty_env_def example_heap_def)
  moreover have "invalid_config (heap empty_env 8)"
    by (simp add: empty_env_def example_heap_def invalid_config_def out_of_range_def
        scenario_config_def)
  moreover have "\<exists>outs hs h1 h2.
     renders [3] (fresh_hooks, empty_env) = Inr (outs, hs, empty_env) \<and>
     useWeather 8 (hs, empty_env) = Inr (\<lparr>response = None\<rparr>, h1, empty_env) \<and>
     useWeather 3 (hs, empty_env) = Inr (\<lparr>response = None\<rparr>, h2, empty_env)"
    by (rule useWeather_ignores_configuration)
  ultimately show ?thesis by blast
qed

section \<open>Validation\<close>

text \<open>
  C4, as stated: a configuration with latitude outside [-90, 90], longitude outside
  [-180, 180] or no granularity field fails with \<open>InvalidConfigError\<close>. The hook has no
  validation: with latitude 100 (object 4), with longitude 200 (object 5) and with no
  granularity field (object 6), a first render returns \<^verbatim>\<open>{ response: undefined }\<close>
  normally.
\<close>

theorem invalid_configuration_is_accepted:
  "heap empty_env 4 = scenario_config\<lparr>latitude := 100\<rparr> \<and>
   invalid_config (heap empty_env 4) \<and>
   useWeather 4 (fresh_hooks, empty_env) \<noteq> Inl InvalidConfigError \<and>
   useWeather 4 (fresh_hooks, empty_env) = Inr (\<lparr>response = None\<rparr>, mounted_hooks 4, empty_env) \<and>
   heap empty_env 5 = scenario_config\<lparr>longitude := 200\<rparr> \<and>
   invalid_config (heap empty_env 5) \<and>
   useWeather 5 (fresh_hooks, empty_env) = Inr (\<lparr>response = None\<rparr>, mounted_hooks 5, empty_env) \<and>
   heap empty_env 6 = scenario_config\<lparr>current_weather := None\<rparr> \<and>
   invalid_config (heap empty_env 6) \<and>
   useWeather 6 (fresh_hooks, empty_env) = Inr (\<lparr>response = None\<rparr>, mounted_hooks 6, empty_env)"
  by (simp add: useWeather_fresh empty_env_def example_heap_def invalid_config_def
      out_of_range_def no_granularity_def scenario_config_def)

text \<open>
  C4, amended: for every configuration with latitude outside [-90, 90], longitude outside
  [-180, 180] or no granularity field, \<^verbatim>\<open>useWeather\<close> does not fail with
  \<open>InvalidConfigError\<close>: it returns normally, and the invocation makes no fetch and
  touches no store (the environment comes back unchanged).
\<close>

theorem useWeather_does_not_validate:
  "invalid_config (heap e c) \<Longrightarrow>
     useWeather c (h, e) \<noteq> Inl InvalidConfigError \<and>
     (\<exists>out h'. useWeather c (h, e) = Inr (out, h', e))"
  by (simp add: useWeather_eq)

theorem useWeather_does_not_validate_witness:
  "heap cached_env 9 = scenario_config\<lparr>latitude := - 91\<rparr> \<and>
   invalid_config (heap cached_env 9) \<and>
   useWeather 9 (fresh_hooks, cached_env) \<noteq> Inl InvalidConfigError \<and>
   (\<exists>out h'. useWeather 9 (fresh_hooks, cached_env) = Inr (out, h', cached_env))"
proof -
  have obj: "heap cached_env 9 = scenario_config\<lparr>latitude := - 91\<rparr>"
    by (simp add: cached_env_def example_heap_def)
  have inv: "invalid_config (heap cached_env 9)"
    unfolding obj by (simp add: invalid_config_def out_of_range_def scenario_config_def)
  from useWeather_does_not_validate [OF inv, of fresh_hooks] obj inv
  show ?thesis by blast
qed

section \<open>Concurrent callers\<close>




section \<open>The cache the doc comment promises\<close>

text \<open>
  C3, evaluated on the code. Local storage holds an entry for the configuration
  \<^verbatim>\<open>{ latitude: 52.52, longitude: 13.405, current_weather: true }\<close> (object 1). The
  hook takes no time and reads no storage: a render of a fresh component, and a later
  render of it, return \<^verbatim>\<open>{ response: undefined }\<close>, not the stored forecast, and
  neither makes a fetch.
\<close>

theorem cached_entry_is_ignored:
  "heap cached_env 1 = scenario_config \<and>
   local_storage cached_env ''latitude=52.52&longitude=13.405&current_weather=true'' =
     Some ''forecast'' \<and>
   fetch_log cached_env = [] \<and>
   renders [1, 1] (fresh_hooks, cached_env) =
     Inr ([\<lparr>response = None\<rparr>, \<lparr>response = None\<rparr>], mounted_hooks 1, cached_env)"
  by (simp add: useWeather_fresh useWeather_mounted) (simp add: cached_env_def example_heap_def)

section \<open>A fetch that fails\<close>

text \<open>
  C5, as stated: if the fetch rejects, all waiters for the key are rejected with the same
  error. The code has no waiters on a shared fetch: every invocation of the callback
  has a fetch of its own. A component is mounted with object 1 and the callback the hook
  defined is invoked twice, overlapping; the first fetch rejects, the second fulfils. The
  second caller is not rejected: its promise fulfils and the forecast is stored.
\<close>

theorem overlapping_invocation_is_not_rejected:
  "useWeather 1 (fresh_hooks, empty_env) = Inr (\<lparr>response = None\<rparr>, mounted_hooks 1, empty_env) \<and>
   memo_cell (mounted_hooks 1) = Some (FetchCallback url 1, (url, 1)) \<and>
   concurrent_invocations (FetchCallback url 1)
       [Inl (FetchError ''offline''), Inr [''forecast'']] (mounted_hooks 1, empty_env) =
     ([Inl (FetchError ''offline''), Inr ()], setResponse [''forecast''] (mounted_hooks 1),
      empty_env\<lparr>fetch_log := [(url, 1, scenario_config), (url, 1, scenario_config)]\<rparr>) \<and>
   useWeather 1 (setResponse [''forecast''] (mounted_hooks 1),
       empty_env\<lparr>fetch_log := [(url, 1, scenario_config), (url, 1, scenario_config)]\<rparr>) =
     Inr (\<lparr>response = Some [''forecast'']\<rparr>, setResponse [''forecast''] (mounted_hooks 1),
       empty_env\<lparr>fetch_log := [(url, 1, scenario_config), (url, 1, scenario_config)]\<rparr>)"
  by (simp add: useWeather_fresh concurrent_invocations_def callback_resume_def
      callback_call_def numeral_2_eq_2 empty_env_def example_heap_def)
     (simp add: useWeather_eq useState_def useCallback_def setResponse_def mounted_hooks_def
      deps_equal_def object_is_def)

text \<open>
  C5, amended: if the fetch of an invocation of the callback the hook defines rejects,
  that invocation writes nothing: the cells of the component, and so the value its next
  render returns, and local storage are what they were. That invocation is rejected with
  the same error; an invocation for the same configuration that overlaps with it is not,
  it settles as its own fetch does. Nothing records the failure: the callback is still
  the memoised one after the next render, and its next invocation calls
  \<^verbatim>\<open>fetchWeatherApi\<close> again with the same arguments.
\<close>

theorem failed_fetch_rejects_its_own_invocation:
  "\<exists>out h1 cb e1.
     useWeather c (fresh_hooks, e) = Inr (out, h1, e) \<and>
     memo_cell h1 = Some (cb, (url, c)) \<and>
     callback_run cb (Inl err) (h1, e) = (Inl err, h1, e1) \<and>
     local_storage e1 = local_storage e \<and>
     useWeather c (h1, e1) = Inr (out, h1, e1) \<and>
     fst (concurrent_invocations cb [Inl err, outcome] (h1, e)) = [Inl err, settled outcome] \<and>
     fetch_log (snd (snd (callback_run cb outcome (h1, e1)))) =
       fetch_log e @ [(url, c, heap e c), (url, c, heap e c)]"
proof -
  let ?cb = "FetchCallback url c"
  let ?h1 = "mounted_hooks c"
  let ?e1 = "callback_call ?cb e"
  have "useWeather c (fresh_hooks, e) = Inr (\<lparr>response = None\<rparr>, ?h1, e)"
    by (rule useWeather_fresh)
  moreover have "memo_cell ?h1 = Some (?cb, (url, c))"
    by (simp add: mounted_hooks_def)
  moreover have "callback_run ?cb (Inl err) (?h1, e) = (Inl err, ?h1, ?e1)"
    by (simp add: callback_run_def callback_resume_def)
  moreover have "local_storage ?e1 = local_storage e"
    by (rule local_storage_callback_call)
  moreover have "useWeather c (?h1, ?e1) = Inr (\<lparr>response = None\<rparr>, ?h1, ?e1)"
    by (rule useWeather_mounted)
  moreover have "fst (concurrent_invocations ?cb [Inl err, outcome] (?h1, e)) =
      [Inl err, settled outcome]"
    by (simp only: concurrent_invocations_eq fst_conv fst_resumes) (simp add: settled_def)
  moreover have "fetch_log (snd (snd (callback_run ?cb outcome (?h1, ?e1)))) =
      fetch_log e @ [(url, c, heap e c), (url, c, heap e c)]"
    by (simp add: callback_run_def fetch_log_callback_call callback_args_def
        heap_callback_call split: prod.splits)
  ultimately show ?thesis by blast
qed

theorem failed_fetch_rejects_its_own_invocation_witness:
  "\<exists>out h1 cb e1.
     useWeather 3 (fresh_hooks, cached_env) = Inr (out, h1, cached_env) \<and>
     memo_cell h1 = Some (cb, (url, 3)) \<and>
     callback_run cb (Inl (FetchError ''offline'')) (h1, cached_env) =
       (Inl (FetchError ''offline''), h1, e1) \<and>
     local_storage e1 = local_storage cached_env \<and>
     useWeather 3 (h1, e1) = Inr (out, h1, e1) \<and>
     fst (concurrent_invocations cb [Inl (FetchError ''offline''), Inr [''forecast'']]
            (h1, cached_env)) =
       [Inl (FetchError ''offline''), Inr ()] \<and>
     fetch_log (snd (snd (callback_run cb (Inr [''forecast'']) (h1, e1)))) =
       [(url, 3, readme_config), (url, 3, readme_config)]"
  using failed_fetch_rejects_its_own_invocation
    [where c = 3 and e = cached_env and err = "FetchError ''offline''"
       and outcome = "Inr [''forecast'']"]
  by (simp add: settled_def cached_env_def example_heap_def)

section \<open>What the application can observe\<close>

text \<open>
  C6, as stated: the entry point drives an observable state through Idle, Loading and
  Ready or Failed, exposed as \<^verbatim>\<open>{ data, isLoading, error }\<close>. The hook returns
  \<^verbatim>\<open>{ response }\<close> and nothing else. A component is mounted, its callback is
  invoked and the fetch rejects: the callback's promise rejects, and the next render
  returns the very value the first one returned. A failure cannot be told from a fetch
  that has not settled.
\<close>

theorem failure_is_not_observable:
  "useWeather 3 (fresh_hooks, empty_env) =
     Inr (\<lparr>response = None\<rparr>, mounted_hooks 3, empty_env) \<and>
   callback_run (FetchCallback url 3) (Inl (FetchError ''offline'')) (mounted_hooks 3, empty_env) =
     (Inl (FetchError ''offline''), mounted_hooks 3,
      empty_env\<lparr>fetch_log := [(url, 3, readme_config)]\<rparr>) \<and>
   useWeather 3 (mounted_hooks 3, empty_env\<lparr>fetch_log := [(url, 3, readme_config)]\<rparr>) =
     Inr (\<lparr>response = None\<rparr>, mounted_hooks 3,
          empty_env\<lparr>fetch_log := [(url, 3, readme_config)]\<rparr>)"
  by (simp add: useWeather_fresh useWeather_mounted callback_run_def callback_resume_def
      callback_call_def empty_env_def example_heap_def)

text \<open>
  C6, amended: the entry point, given a configuration, exposes \<^verbatim>\<open>{ response }\<close>
  only, the current value of its state cell: \<^verbatim>\<open>undefined\<close> until a fetch result has
  been stored with \<^verbatim>\<open>setResponse\<close>, that result afterwards. There is no Failed state
  and no \<^verbatim>\<open>isLoading\<close> or \<^verbatim>\<open>error\<close> field: a fetch that rejects leaves the
  cells, and so the exposed value, unchanged. A render with another configuration object
  replaces the memoised callback by one for that object, a render with the same object
  keeps it; nothing is normalised.
\<close>

theorem useWeather_exposes_response_only:
  "(\<exists>h'. useWeather c (h, e) = Inr (\<lparr>response = fst (useState h)\<rparr>, h', e)) \<and>
   callback_resume (Inr result) h = (Inr (), setResponse result h) \<and>
   (\<exists>h'. useWeather c (setResponse result h, e) = Inr (\<lparr>response = Some result\<rparr>, h', e)) \<and>
   callback_resume (Inl err) h = (Inl err, h) \<and>
   (\<exists>out h'. useWeather c' (h\<lparr>memo_cell := Some (fn0, (url, c))\<rparr>, e) = Inr (out, h', e) \<and>
      memo_cell h' =
        (if c = c' then Some (fn0, (url, c))
         else Some (FetchCallback url c', (url, c'))))"
proof -
  have "\<exists>h'. useWeather c (setResponse result h, e) = Inr (\<lparr>response = Some result\<rparr>, h', e)"
    by (simp add: useWeather_eq setResponse_def useState_def)
  then show ?thesis
    using useWeather_memo [where b = c' and h = h and ?fn0.0 = fn0 and a = c and e = e]
    by (simp add: useWeather_eq callback_resume_def)
qed

theorem useWeather_exposes_response_only_witness:
  "(\<exists>h'. useWeather 3 (fresh_hooks, empty_env) = Inr (\<lparr>response = None\<rparr>, h', empty_env)) \<and>
   (\<exists>h'. useWeather 3 (setResponse [''forecast''] (mounted_hooks 3), empty_env) =
      Inr (\<lparr>response = Some [''forecast'']\<rparr>, h', empty_env)) \<and>
   callback_resume (Inl (FetchError ''offline'')) (mounted_hooks 3) =
     (Inl (FetchError ''offline''), mounted_hooks 3)"
proof -
  have "fst (useState fresh_hooks) = None"
    by (simp add: useState_def fresh_hooks_def)
  with useWeather_exposes_response_only [where c = 3 and h = fresh_hooks and e = empty_env]
  have a: "\<exists>h'. useWeather 3 (fresh_hooks, empty_env) = Inr (\<lparr>response = None\<rparr>, h', empty_env)"
    by simp
  from useWeather_exposes_response_only
    [where c = 3 and h = "mounted_hooks 3" and e = empty_env and result = "[''forecast'']"
       and err = "FetchError ''offline''"]
  show ?thesis using a by blast
qed

section \<open>When two configurations count as the same\<close>

text \<open>
  C7, as stated: configurations that are equal field by field get the same key. The source
  computes no key. The one place where it decides whether the configuration has changed is
  the dependency array \<^verbatim>\<open>[url, config]\<close> of line 198, which React compares with
  \<^verbatim>\<open>Object.is\<close>. Objects 1 and 2 hold the same fields (two object literals, in
  whatever order they list their properties), and they are two dependencies: a component
  mounted with the first and rendered with the second replaces its memoised callback and
  its stored dependencies.
\<close>

theorem equal_fields_are_not_the_same_configuration:
  "heap empty_env 1 = heap empty_env 2 \<and>
   \<not> deps_equal (url, 1) (url, 2) \<and>
   useWeather 1 (fresh_hooks, empty_env) = Inr (\<lparr>response = None\<rparr>, mounted_hooks 1, empty_env) \<and>
   useWeather 2 (mounted_hooks 1, empty_env) = Inr (\<lparr>response = None\<rparr>, mounted_hooks 2, empty_env) \<and>
   mounted_hooks 2 \<noteq> mounted_hooks 1"
  by (simp add: useWeather_fresh empty_env_def example_heap_def)
     (simp add: useWeather_eq useState_def useCallback_def mounted_hooks_def deps_equal_def
      object_is_def)

text \<open>
  C7, amended: the code derives no cache key. Whether the configuration of a render is
  that of the previous render is decided by the hook's dependency array, by identity of
  the object alone and whatever fields the objects hold: a render with the same object
  keeps the memoised callback, a render with any other object replaces it by a callback
  for that object. So two configurations that differ in a field, being two objects,
  count as different, and so do two objects that are equal field by field.
\<close>

theorem configuration_equality_is_identity:
  "(\<exists>out h'. useWeather b (h\<lparr>memo_cell := Some (fn0, (url, a))\<rparr>, e) = Inr (out, h', e) \<and>
      memo_cell h' =
        (if a = b then Some (fn0, (url, a)) else Some (FetchCallback url b, (url, b)))) \<and>
   (\<exists>h'. renders [a, b] (fresh_hooks, e) =
        Inr ([\<lparr>response = None\<rparr>, \<lparr>response = None\<rparr>], h', e) \<and>
      memo_cell h' = Some (FetchCallback url b, (url, b))) \<and>
   (heap e a \<noteq> heap e b \<longrightarrow> \<not> deps_equal (url, a) (url, b))"
proof -
  have "\<exists>h'. renders [a, b] (fresh_hooks, e) =
        Inr ([\<lparr>response = None\<rparr>, \<lparr>response = None\<rparr>], h', e) \<and>
      memo_cell h' = Some (FetchCallback url b, (url, b))"
  proof -
    from useWeather_after_mount [of b a e] obtain h' where
      "useWeather b (mounted_hooks a, e) = Inr (\<lparr>response = None\<rparr>, h', e)"
      "memo_cell h' = Some (FetchCallback url b, (url, b))"
      by blast
    then show ?thesis by (simp add: useWeather_fresh)
  qed
  moreover have "heap e a \<noteq> heap e b \<longrightarrow> \<not> deps_equal (url, a) (url, b)"
    by (auto simp: deps_equal_def object_is_def)
  ultimately show ?thesis
    using useWeather_memo [where b = b and h = h and ?fn0.0 = fn0 and a = a and e = e]
    by blast
qed

theorem configuration_equality_is_identity_witness:
  "heap empty_env 1 = heap empty_env 2 \<and>
   (\<exists>out h'. useWeather 2 (mounted_hooks 1, empty_env) = Inr (out, h', empty_env) \<and>
      memo_cell h' = Some (FetchCallback url 2, (url, 2))) \<and>
   heap (assign 1 readme_config empty_env) 1 \<noteq> heap empty_env 1 \<and>
   (\<exists>out h'. useWeather 1 (mounted_hooks 1, assign 1 readme_config empty_env) =
        Inr (out, h', assign 1 readme_config empty_env) \<and>
      memo_cell h' = memo_cell (mounted_hooks 1)) \<and>
   heap empty_env 1 \<noteq> heap empty_env 3 \<and>
   \<not> deps_equal (url, 1) (url, 3)"
proof -
  have m: "mounted_hooks 1\<lparr>memo_cell := Some (FetchCallback url 1, (url, 1))\<rparr> = mounted_hooks 1"
    by (simp add: mounted_hooks_def)
  have "heap empty_env 1 = heap empty_env 2"
    by (simp add: empty_env_def example_heap_def)
  moreover from configuration_equality_is_identity
    [where b = 2 and h = "mounted_hooks 1" and ?fn0.0 = "FetchCallback url 1" and a = 1
       and e = empty_env]
  have "\<exists>out h'. useWeather 2 (mounted_hooks 1, empty_env) = Inr (out, h', empty_env) \<and>
      memo_cell h' = Some (FetchCallback url 2, (url, 2))"
    unfolding m by simp
  moreover have "heap (assign 1 readme_config empty_env) 1 \<noteq> heap empty_env 1"
    by (simp add: assign_def empty_env_def example_heap_def readme_config_def
        scenario_config_def)
  moreover from configuration_equality_is_identity
    [where b = 1 and h = "mounted_hooks 1" and ?fn0.0 = "FetchCallback url 1" and a = 1
       and e = "assign 1 readme_config empty_env"]
  have "\<exists>out h'. useWeather 1 (mounted_hooks 1, assign 1 readme_config empty_env) =
        Inr (out, h', assign 1 readme_config empty_env) \<and>
      memo_cell h' = memo_cell (mounted_hooks 1)"
    unfolding m by (simp add: mounted_hooks_def)
  moreover have ne: "heap empty_env 1 \<noteq> heap empty_env 3"
    by (simp add: empty_env_def example_heap_def readme_config_def scenario_config_def)
  moreover from configuration_equality_is_identity
    [where b = 3 and h = fresh_hooks and ?fn0.0 = "FetchCallback url 1" and a = 1
       and e = empty_env] ne
  have "\<not> deps_equal (url, 1) (url, 3)"
    by blast
  ultimately show ?thesis by blast
qed

section \<open>Defaults written out\<close>




end
